theory Spec2Isabelle
  imports
    Complex_Main
    "HOL-Library.Char_ord"
    "HOL-Library.List_Lexorder"
    "HOL-Library.Product_Lexorder"
    "HOL-Library.Multiset"
begin

section \<open>Numbers, rounding and errors\<close>

text \<open>
  The program computes with Python floats.  The embedding idealises a float as a
  \<^typ>\<open>real\<close>: every operation is exact, and the only rounding is the one the source
  asks for with \<^verbatim>\<open>round(x, ndigits)\<close>.  Python rounds a float to the nearest
  value with \<open>ndigits\<close> decimals and resolves a tie towards the even neighbour;
  \<open>py_round\<close> does the same on the exact value.  Python integers are \<^typ>\<open>int\<close>.
\<close>

datatype py_error = ZeroDivisionError | ValueError | KeyError

definition MONTHS_IN_YEAR :: real where
  "MONTHS_IN_YEAR = 12"

definition round_half_even :: "real \<Rightarrow> int" where
  "round_half_even x =
     (let f = \<lfloor>x\<rfloor>; d = x - of_int f
      in if d < 1 / 2 then f
         else if 1 / 2 < d then f + 1
         else if even f then f else f + 1)"

definition py_round :: "real \<Rightarrow> nat \<Rightarrow> real" where
  "py_round x ndigits = of_int (round_half_even (x * 10 ^ ndigits)) / 10 ^ ndigits"

text \<open>\<^verbatim>\<open>int(x)\<close> truncates towards zero; \<^verbatim>\<open>a % b\<close> on floats takes the sign of \<open>b\<close>.\<close>

definition py_int :: "real \<Rightarrow> int" where
  "py_int x = (if 0 \<le> x then \<lfloor>x\<rfloor> else \<lceil>x\<rceil>)"

definition py_fmod :: "real \<Rightarrow> real \<Rightarrow> real" where
  "py_fmod a b = a - b * of_int \<lfloor>a / b\<rfloor>"

text \<open>An amount is whole when it has no fractional part.\<close>

definition is_whole_amount :: "real \<Rightarrow> bool" where
  "is_whole_amount x \<longleftrightarrow> x = of_int \<lfloor>x\<rfloor>"


section \<open>Financial primitives (\<^verbatim>\<open>utils/calculations.py\<close>)\<close>

text \<open>
  \<^verbatim>\<open>LoanCalculator.calculate_emi\<close>.  The division raises \<^verbatim>\<open>ZeroDivisionError\<close>
  when \<open>(1 + r) ^ n - 1\<close> is zero.
\<close>

definition calculate_emi :: "real \<Rightarrow> real \<Rightarrow> int \<Rightarrow> py_error + real" where
  "calculate_emi principal_amt annual_rate tenure_months =
     (if principal_amt \<le> 0 \<or> tenure_months \<le> 0 then Inr 0
      else if annual_rate = 0 then Inr (py_round (principal_amt / of_int tenure_months) 2)
      else
        let monthly_rate = annual_rate / (MONTHS_IN_YEAR * 100);
            growth = (1 + monthly_rate) ^ nat tenure_months
        in if growth - 1 = 0 then Inl ZeroDivisionError
           else Inr (py_round (principal_amt * monthly_rate * growth / (growth - 1)) 0))"

text \<open>\<^verbatim>\<open>LoanCalculator.split_payment\<close>.\<close>

definition split_payment :: "real \<Rightarrow> real \<Rightarrow> real \<Rightarrow> real \<times> real" where
  "split_payment emi_amount outstanding_principal annual_rate =
     (if outstanding_principal \<le> 0 then (emi_amount, 0)
      else
        let monthly_rate = annual_rate / (MONTHS_IN_YEAR * 100);
            interest_component = outstanding_principal * monthly_rate;
            principal_component = emi_amount - interest_component;
            principal_clamped =
              (if principal_component > outstanding_principal then outstanding_principal
               else principal_component)
        in (py_round principal_clamped 2, py_round interest_component 2))"

text \<open>
  \<^verbatim>\<open>LoanCalculator.calculate_prepayment_impact\<close>.  The result dictionary is a record.
  \<^verbatim>\<open>math.log\<close> raises \<^verbatim>\<open>ValueError\<close> on a non-positive argument, and the
  zero-rate branch divides by \<open>current_emi\<close>.
\<close>

record prepayment_impact =
  new_balance :: real
  new_tenure :: int
  months_saved :: int
  interest_saved :: real
  new_emi :: real

definition new_tenure_same_emi :: "real \<Rightarrow> real \<Rightarrow> int \<Rightarrow> real \<Rightarrow> py_error + int" where
  "new_tenure_same_emi new_principal annual_rate remaining_months current_emi =
     (if annual_rate = 0 then
        (if current_emi = 0 then Inl ZeroDivisionError
         else Inr (py_int (new_principal / current_emi)
                   + (if py_fmod new_principal current_emi > 0 then 1 else 0)))
      else
        let monthly_rate = annual_rate / (MONTHS_IN_YEAR * 100)
        in if current_emi \<le> new_principal * monthly_rate then Inr remaining_months
           else if current_emi / (current_emi - new_principal * monthly_rate) \<le> 0
                   \<or> 1 + monthly_rate \<le> 0 then Inl ValueError
           else Inr \<lceil>ln (current_emi / (current_emi - new_principal * monthly_rate))
                       / ln (1 + monthly_rate)\<rceil>)"

definition calculate_prepayment_impact ::
  "real \<Rightarrow> real \<Rightarrow> real \<Rightarrow> int \<Rightarrow> real \<Rightarrow> py_error + prepayment_impact" where
  "calculate_prepayment_impact outstanding prepayment annual_rate remaining_months current_emi =
     (if prepayment \<ge> outstanding then
        Inr \<lparr>new_balance = 0, new_tenure = 0, months_saved = remaining_months,
             interest_saved = 0, new_emi = 0\<rparr>
      else
        let new_principal = outstanding - prepayment;
            original_total = current_emi * of_int remaining_months;
            original_interest = original_total - outstanding
        in case new_tenure_same_emi new_principal annual_rate remaining_months current_emi of
             Inl e \<Rightarrow> Inl e
           | Inr tenure \<Rightarrow>
               let saved = remaining_months - tenure;
                   new_total = current_emi * of_int tenure;
                   new_interest = new_total - new_principal;
                   interest_diff = original_interest - new_interest
               in case calculate_emi new_principal annual_rate remaining_months of
                    Inl e \<Rightarrow> Inl e
                  | Inr emi' \<Rightarrow>
                      Inr \<lparr>new_balance = py_round new_principal 2, new_tenure = tenure,
                           months_saved = saved, interest_saved = py_round interest_diff 2,
                           new_emi = emi'\<rparr>)"

text \<open>\<^verbatim>\<open>LoanCalculator.get_payment_frequency_multiplier\<close>.\<close>

definition get_payment_frequency_multiplier :: "string \<Rightarrow> int" where
  "get_payment_frequency_multiplier frequency =
     (if frequency = ''MONTHLY'' then 1
      else if frequency = ''QUARTERLY'' then 3
      else if frequency = ''ANNUALLY'' then 12
      else 1)"


section \<open>Schedule generator (\<^verbatim>\<open>utils/amortization.py\<close>)\<close>

subsection \<open>Calendar dates\<close>

text \<open>
  \<^verbatim>\<open>start_date + relativedelta(months=k)\<close> moves \<open>k\<close> calendar months ahead and
  clips the day to the length of the month reached.
\<close>

record date =
  d_year :: int
  d_month :: int
  d_day :: int

definition is_leap_year :: "int \<Rightarrow> bool" where
  "is_leap_year y \<longleftrightarrow> y mod 4 = 0 \<and> (y mod 100 \<noteq> 0 \<or> y mod 400 = 0)"

definition days_in_month :: "int \<Rightarrow> int \<Rightarrow> int" where
  "days_in_month y m =
     (if m = 2 then (if is_leap_year y then 29 else 28)
      else if m = 4 \<or> m = 6 \<or> m = 9 \<or> m = 11 then 30
      else 31)"

definition add_months :: "date \<Rightarrow> int \<Rightarrow> date" where
  "add_months d k =
     (let total = d_month d - 1 + k;
          y = d_year d + total div 12;
          m = total mod 12 + 1
      in \<lparr>d_year = y, d_month = m, d_day = min (d_day d) (days_in_month y m)\<rparr>)"

subsection \<open>The schedule object and its rows\<close>

text \<open>
  \<open>amortization\<close> holds the attributes \<^verbatim>\<open>__init__\<close> copies from the loan details
  (\<open>principal_amt\<close> is the attribute \<^verbatim>\<open>principal\<close>);
  \<open>frequency_months\<close> is the attribute it derives from the payment frequency.  A row
  of the data frame is a record; the columns \<^verbatim>\<open>interest_rate\<close> and
  \<^verbatim>\<open>prepayment\<close> exist only in the schedules that write them.
\<close>

record amortization =
  principal_amt :: real
  annual_rate :: real
  tenure_months :: int
  emi :: real
  start_date :: date
  payment_frequency :: string

definition frequency_months :: "amortization \<Rightarrow> int" where
  "frequency_months a = get_payment_frequency_multiplier (payment_frequency a)"

record row =
  row_payment_number :: int
  row_month :: int
  row_date :: date
  row_interest_rate :: "real option"
  row_emi :: real
  row_principal :: real
  row_interest :: real
  row_prepayment :: "real option"
  row_balance :: real

text \<open>
  The three generators repeat the same statements for one period: split the
  installment, clip the principal part to the outstanding amount (``handle final
  payment''), and reduce the outstanding amount.  \<open>amortize_period\<close> is that block; it
  returns the principal part, the interest part, the installment actually paid and
  the outstanding amount after the principal part.  \<open>snap_residue\<close> is the statement
  \<^verbatim>\<open>if outstanding < 0.01: outstanding = 0\<close>.
\<close>

definition amortize_period :: "real \<Rightarrow> real \<Rightarrow> real \<Rightarrow> real \<times> real \<times> real \<times> real" where
  "amortize_period emi_amount outstanding rate =
     (let (principal_component, interest_component) = split_payment emi_amount outstanding rate
      in if principal_component > outstanding
         then (outstanding, interest_component, outstanding + interest_component,
               outstanding - outstanding)
         else (principal_component, interest_component, emi_amount,
               outstanding - principal_component))"

definition snap_residue :: "real \<Rightarrow> real" where
  "snap_residue outstanding = (if outstanding < 0.01 then 0 else outstanding)"

definition month_of_payment :: "amortization \<Rightarrow> nat \<Rightarrow> int" where
  "month_of_payment a payment = int payment * frequency_months a + frequency_months a"

subsection \<open>Standard schedule\<close>

definition standard_total_payments :: "amortization \<Rightarrow> int" where
  "standard_total_payments a =
     (let total_payments = tenure_months a div frequency_months a
      in if tenure_months a mod frequency_months a > 0 then total_payments + 1
         else total_payments)"

fun standard_loop :: "amortization \<Rightarrow> nat list \<Rightarrow> real \<Rightarrow> int \<Rightarrow> row list" where
  "standard_loop a [] outstanding payment_number = []"
| "standard_loop a (payment # rest) outstanding payment_number =
     (if outstanding \<le> 0 then []
      else
        case amortize_period (emi a) outstanding (annual_rate a) of
          (principal_component, interest_component, actual_emi, reduced) \<Rightarrow>
            \<lparr>row_payment_number = payment_number + 1,
             row_month = month_of_payment a payment,
             row_date = add_months (start_date a) (month_of_payment a payment),
             row_interest_rate = None,
             row_emi = py_round actual_emi 2,
             row_principal = py_round principal_component 2,
             row_interest = py_round interest_component 2,
             row_prepayment = None,
             row_balance = py_round (snap_residue reduced) 2\<rparr>
            # standard_loop a rest (snap_residue reduced) (payment_number + 1))"

definition generate_standard_schedule :: "amortization \<Rightarrow> row list" where
  "generate_standard_schedule a =
     standard_loop a [0 ..< nat (standard_total_payments a)] (principal_amt a) 0"

subsection \<open>Schedule with prepayments\<close>

text \<open>
  The dictionary comprehension over the prepayment list keeps the last amount given
  for a month.  The loop also accumulates the prepayments it applied.
\<close>

definition prepayments_dict :: "(int \<times> real) list \<Rightarrow> (int \<rightharpoonup> real)" where
  "prepayments_dict prepayments = foldl (\<lambda>m (k, v). m(k \<mapsto> v)) Map.empty prepayments"

definition max_payments :: "amortization \<Rightarrow> int" where
  "max_payments a = tenure_months a div frequency_months a + 1"

fun prepayment_loop ::
  "(int \<rightharpoonup> real) \<Rightarrow> amortization \<Rightarrow> nat list \<Rightarrow> real \<Rightarrow> int \<Rightarrow> real \<Rightarrow> row list \<times> real" where
  "prepayment_loop d a [] outstanding payment_number total_prepayment = ([], total_prepayment)"
| "prepayment_loop d a (payment # rest) outstanding payment_number total_prepayment =
     (if outstanding \<le> 0.01 then ([], total_prepayment)
      else
        case amortize_period (emi a) outstanding (annual_rate a) of
          (principal_component, interest_component, actual_emi, reduced) \<Rightarrow>
            let prepayment_amount =
                  (case d (month_of_payment a payment) of None \<Rightarrow> 0 | Some amount \<Rightarrow> amount);
                after_prepayment = snap_residue (reduced - prepayment_amount);
                (rows, total) =
                  prepayment_loop d a rest after_prepayment (payment_number + 1)
                    (total_prepayment + prepayment_amount)
            in (\<lparr>row_payment_number = payment_number + 1,
                 row_month = month_of_payment a payment,
                 row_date = add_months (start_date a) (month_of_payment a payment),
                 row_interest_rate = None,
                 row_emi = py_round actual_emi 2,
                 row_principal = py_round principal_component 2,
                 row_interest = py_round interest_component 2,
                 row_prepayment = Some (py_round prepayment_amount 2),
                 row_balance = py_round after_prepayment 2\<rparr> # rows, total))"

subsection \<open>Summary metrics\<close>

text \<open>
  \<^verbatim>\<open>get_summary_metrics\<close> reads the columns of the data frame; a frame built from no
  rows has no columns and the first access raises \<^verbatim>\<open>KeyError\<close>.
\<close>

record summary =
  sum_total_interest :: real
  sum_total_amount :: real
  sum_actual_tenure :: int
  sum_total_payments :: int
  sum_principal :: real
  sum_total_prepayment :: real

definition column_sum :: "real option list \<Rightarrow> real" where
  "column_sum xs = sum_list (map (\<lambda>x. case x of None \<Rightarrow> 0 | Some v \<Rightarrow> v) xs)"

definition get_summary_metrics :: "amortization \<Rightarrow> row list option \<Rightarrow> py_error + summary" where
  "get_summary_metrics a schedule_df =
     (let rows = (case schedule_df of None \<Rightarrow> generate_standard_schedule a | Some df \<Rightarrow> df)
      in if rows = [] then Inl KeyError
         else
           let total_interest = sum_list (map row_interest rows);
               total_emi = sum_list (map row_emi rows);
               has_prepayment = list_ex (\<lambda>r. row_prepayment r \<noteq> None) rows;
               total_prepayment = (if has_prepayment then column_sum (map row_prepayment rows) else 0);
               total_amount = (if has_prepayment then total_emi + total_prepayment else total_emi)
           in Inr \<lparr>sum_total_interest = py_round total_interest 2,
                   sum_total_amount = py_round total_amount 2,
                   sum_actual_tenure = fold max (map row_month rows) (row_month (hd rows)),
                   sum_total_payments = int (length rows),
                   sum_principal = py_round (principal_amt a) 2,
                   sum_total_prepayment = py_round total_prepayment 2\<rparr>)"

definition apply_prepayments ::
  "amortization \<Rightarrow> (int \<times> real) list \<Rightarrow> py_error + (row list \<times> summary)" where
  "apply_prepayments a prepayments =
     (case prepayment_loop (prepayments_dict prepayments) a [0 ..< nat (max_payments a)]
             (principal_amt a) 0 0 of
        (df, total_prepayment) \<Rightarrow>
          (case get_summary_metrics a (Some df) of
             Inl e \<Rightarrow> Inl e
           | Inr s \<Rightarrow> Inr (df, s\<lparr>sum_total_prepayment := total_prepayment\<rparr>)))"

subsection \<open>Schedule with rate changes\<close>






section \<open>Stored loans and payments (\<^verbatim>\<open>database/models.py\<close>)\<close>

text \<open>
  The rows of the tables \<^verbatim>\<open>loans\<close> and \<^verbatim>\<open>payments\<close> carry the fields of the data
  classes \<^verbatim>\<open>Loan\<close> and \<^verbatim>\<open>Payment\<close>.  A field name that both classes use is
  prefixed in one of them (\<open>payment_loan_id\<close>, \<open>loan_start_date\<close>,
  \<open>loan_payment_frequency\<close>, \<open>loan_status\<close>, \<open>loan_created_at\<close>), and so is the
  payment's \<^verbatim>\<open>notes\<close> (\<open>payment_notes\<close>).  Dates are stored as text and compared
  as text.
\<close>

record loan =
  loan_id :: int
  loan_name :: string
  loan_type :: string
  bank_name :: string
  principal_amount :: real
  sanctioned_amount :: real
  interest_rate :: real
  rate_type :: string
  loan_term_months :: int
  loan_start_date :: string
  emi_amount :: real
  loan_payment_frequency :: string
  loan_status :: string
  loan_created_at :: "string option"
  updated_at :: "string option"

record payment =
  payment_id :: int
  payment_loan_id :: int
  payment_date :: string
  scheduled_date :: string
  principal_component :: real
  interest_component :: real
  total_amount :: real
  payment_type :: string
  payment_method :: string
  charges :: real
  balance_remaining :: real
  status :: string
  payment_notes :: string
  created_at :: "string option"

text \<open>
  The dictionary handed to \<^verbatim>\<open>Payment.update\<close>; \<^verbatim>\<open>charges\<close> and \<^verbatim>\<open>notes\<close> are
  read with a default.
\<close>

record payment_data =
  upd_payment_date :: string
  upd_scheduled_date :: string
  upd_principal_component :: real
  upd_interest_component :: real
  upd_total_amount :: real
  upd_payment_type :: string
  upd_payment_method :: string
  upd_charges :: "real option"
  upd_balance_remaining :: real
  upd_status :: string
  upd_notes :: "string option"

text \<open>
  The state behind \<^verbatim>\<open>get_db_manager()\<close>: the two tables, the row id of the last
  insert on the connection (what \<^verbatim>\<open>cursor.lastrowid\<close> reports after any statement)
  and the number of CSV exports that write statements have triggered.
\<close>

record db =
  loans :: "loan list"
  payments :: "payment list"
  last_insert_rowid :: int
  csv_exports :: nat

text \<open>
  \<^verbatim>\<open>DatabaseManager.execute_query\<close> returns
  \<^verbatim>\<open>cursor.lastrowid if cursor.lastrowid else cursor.rowcount\<close>.
\<close>

definition execute_query_result :: "db \<Rightarrow> int \<Rightarrow> int" where
  "execute_query_result s rowcount =
     (if last_insert_rowid s \<noteq> 0 then last_insert_rowid s else rowcount)"

definition Loan_get_by_id :: "db \<Rightarrow> int \<Rightarrow> loan option" where
  "Loan_get_by_id s lid = find (\<lambda>l. loan_id l = lid) (loans s)"

definition Payment_get_by_id :: "db \<Rightarrow> int \<Rightarrow> payment option" where
  "Payment_get_by_id s pid = find (\<lambda>p. payment_id p = pid) (payments s)"

subsection \<open>Balance cascade\<close>

text \<open>
  The query of \<^verbatim>\<open>recalculate_balance_cascade\<close>:
  \<^verbatim>\<open>WHERE loan_id = ? ORDER BY payment_date ASC, payment_id ASC\<close>.
\<close>

definition chronological_payments :: "db \<Rightarrow> int \<Rightarrow> payment list" where
  "chronological_payments s lid =
     sort_key (\<lambda>p. (payment_date p, payment_id p))
       (filter (\<lambda>p. payment_loan_id p = lid) (payments s))"

text \<open>\<^verbatim>\<open>UPDATE payments SET balance_remaining = ? WHERE payment_id = ?\<close>.\<close>

definition set_balance_remaining :: "db \<Rightarrow> real \<Rightarrow> int \<Rightarrow> db" where
  "set_balance_remaining s current_balance pid =
     s\<lparr>payments :=
          map (\<lambda>p. if payment_id p = pid then p\<lparr>balance_remaining := current_balance\<rparr> else p)
            (payments s),
       csv_exports := csv_exports s + 1\<rparr>"

fun cascade_loop :: "db \<Rightarrow> real \<Rightarrow> (int \<times> real) list \<Rightarrow> db" where
  "cascade_loop s current_balance [] = s"
| "cascade_loop s current_balance ((pid, principal_part) # rest) =
     cascade_loop (set_balance_remaining s (current_balance - principal_part) pid)
       (current_balance - principal_part) rest"

definition recalculate_balance_cascade :: "db \<Rightarrow> int \<Rightarrow> db" where
  "recalculate_balance_cascade s lid =
     (case Loan_get_by_id s lid of
        None \<Rightarrow> s
      | Some l \<Rightarrow>
          cascade_loop s (principal_amount l)
            (map (\<lambda>p. (payment_id p, principal_component p)) (chronological_payments s lid)))"

subsection \<open>Updating and deleting a payment\<close>

definition update_payment_row :: "payment_data \<Rightarrow> payment \<Rightarrow> payment" where
  "update_payment_row payment_data p =
     p\<lparr>payment_date := upd_payment_date payment_data,
       scheduled_date := upd_scheduled_date payment_data,
       principal_component := upd_principal_component payment_data,
       interest_component := upd_interest_component payment_data,
       total_amount := upd_total_amount payment_data,
       payment_type := upd_payment_type payment_data,
       payment_method := upd_payment_method payment_data,
       charges := (case upd_charges payment_data of None \<Rightarrow> 0 | Some c \<Rightarrow> c),
       balance_remaining := upd_balance_remaining payment_data,
       status := upd_status payment_data,
       payment_notes := (case upd_notes payment_data of None \<Rightarrow> [] | Some n \<Rightarrow> n)\<rparr>"

definition Payment_update :: "db \<Rightarrow> int \<Rightarrow> payment_data \<Rightarrow> int \<times> db" where
  "Payment_update s pid payment_data =
     (case Payment_get_by_id s pid of
        None \<Rightarrow> (0, s)
      | Some p \<Rightarrow>
          let lid = payment_loan_id p;
              rowcount = int (length (filter (\<lambda>q. payment_id q = pid) (payments s)));
              result = execute_query_result s rowcount;
              s1 = s\<lparr>payments :=
                        map (\<lambda>q. if payment_id q = pid then update_payment_row payment_data q else q)
                          (payments s),
                      csv_exports := csv_exports s + 1\<rparr>
          in (result, recalculate_balance_cascade s1 lid))"

definition Payment_delete :: "db \<Rightarrow> int \<Rightarrow> int \<times> db" where
  "Payment_delete s pid =
     (case Payment_get_by_id s pid of
        None \<Rightarrow> (0, s)
      | Some p \<Rightarrow>
          let lid = payment_loan_id p;
              rowcount = int (length (filter (\<lambda>q. payment_id q = pid) (payments s)));
              result = execute_query_result s rowcount;
              s1 = s\<lparr>payments := filter (\<lambda>q. payment_id q \<noteq> pid) (payments s),
                      csv_exports := csv_exports s + 1\<rparr>
          in (result, recalculate_balance_cascade s1 lid))"

subsection \<open>Listing the payments of a loan\<close>

text \<open>
  The query of \<^verbatim>\<open>Payment.get_by_loan\<close> is
  \<^verbatim>\<open>WHERE loan_id = ? ORDER BY payment_date DESC\<close>.  It fixes the order of two rows
  only when their dates differ; a list is a possible answer when it holds exactly
  the loan's rows and its dates never increase.
\<close>

definition Payment_get_by_loan_returns :: "db \<Rightarrow> int \<Rightarrow> payment list \<Rightarrow> bool" where
  "Payment_get_by_loan_returns s lid rows \<longleftrightarrow>
     mset rows = mset (filter (\<lambda>p. payment_loan_id p = lid) (payments s))
     \<and> sorted_wrt (\<lambda>p q. payment_date q \<le> payment_date p) rows"

text \<open>
  The order the interface description asks for: payment date descending, payment id
  descending among equal dates.
\<close>

definition date_desc_id_desc :: "payment \<Rightarrow> payment \<Rightarrow> bool" where
  "date_desc_id_desc p q \<longleftrightarrow>
     payment_date q < payment_date p
     \<or> (payment_date q = payment_date p \<and> payment_id q \<le> payment_id p)"

section \<open>Notions used to state the properties\<close>

text \<open>
  The balances a cascade is expected to store: the starting balance less the first
  principal part, less the first two, and so on.
\<close>

fun running_balances :: "real \<Rightarrow> real list \<Rightarrow> real list" where
  "running_balances b [] = []"
| "running_balances b (x # xs) = (b - x) # running_balances (b - x) xs"

text \<open>Overwriting the stored balance of the payments a table of new balances names.\<close>

definition overwrite_balance :: "(int \<rightharpoonup> real) \<Rightarrow> payment \<Rightarrow> payment" where
  "overwrite_balance m p =
     (case m (payment_id p) of None \<Rightarrow> p | Some v \<Rightarrow> p\<lparr>balance_remaining := v\<rparr>)"



subsection \<open>Sample data\<close>

definition sample_loan :: loan where
  "sample_loan =
     \<lparr>loan_id = 1, loan_name = ''Home'', loan_type = ''HOME'', bank_name = ''Bank'',
      principal_amount = 1000, sanctioned_amount = 1000, interest_rate = 12,
      rate_type = ''FIXED'', loan_term_months = 3, loan_start_date = ''2024-01-01'',
      emi_amount = 340, loan_payment_frequency = ''MONTHLY'', loan_status = ''ACTIVE'',
      loan_created_at = None, updated_at = None\<rparr>"

definition sample_payment :: "int \<Rightarrow> string \<Rightarrow> real \<Rightarrow> real \<Rightarrow> string \<Rightarrow> payment" where
  "sample_payment pid day amount balance st =
     \<lparr>payment_id = pid, payment_loan_id = 1, payment_date = day, scheduled_date = day,
      principal_component = amount, interest_component = 0, total_amount = amount,
      payment_type = ''EMI'', payment_method = ''UPI'', charges = 0,
      balance_remaining = balance, status = st, payment_notes = [], created_at = None\<rparr>"

definition sample_db :: db where
  "sample_db =
     \<lparr>loans = [sample_loan],
      payments = [sample_payment 1 ''2024-03-01'' 200 0 ''PENDING'',
                  sample_payment 2 ''2024-02-01'' 100 0 ''PAID''],
      last_insert_rowid = 2, csv_exports = 0\<rparr>"

definition sample_payment_data :: payment_data where
  "sample_payment_data =
     \<lparr>upd_payment_date = ''2024-04-01'', upd_scheduled_date = ''2024-04-01'',
      upd_principal_component = 300, upd_interest_component = 0, upd_total_amount = 300,
      upd_payment_type = ''EMI'', upd_payment_method = ''UPI'', upd_charges = None,
      upd_balance_remaining = 0, upd_status = ''PAID'', upd_notes = None\<rparr>"

definition same_day_db :: db where
  "same_day_db =
     \<lparr>loans = [sample_loan],
      payments = [sample_payment 1 ''2024-02-01'' 100 900 ''PAID'',
                  sample_payment 2 ''2024-02-01'' 200 700 ''PAID''],
      last_insert_rowid = 2, csv_exports = 0\<rparr>"


definition sample_schedule :: "real \<Rightarrow> real \<Rightarrow> int \<Rightarrow> real \<Rightarrow> string \<Rightarrow> amortization" where
  "sample_schedule p r n e freq =
     \<lparr>principal_amt = p, annual_rate = r, tenure_months = n, emi = e,
      start_date = \<lparr>d_year = 2024, d_month = 1, d_day = 31\<rparr>, payment_frequency = freq\<rparr>"


section \<open>Properties of the financial primitives\<close>

subsection \<open>Rounding\<close>


lemma round_half_even_upper: "of_int (round_half_even x) \<le> x + 1 / 2"
  unfolding round_half_even_def Let_def by (auto; linarith)

lemma round_half_even_of_int [simp]: "round_half_even (of_int k) = k"
  unfolding round_half_even_def Let_def by simp




lemma py_round_2_zero [simp]: "py_round 0 n = 0"
  using round_half_even_of_int [of 0] by (simp add: py_round_def del: round_half_even_of_int)


lemma is_whole_of_int [simp]: "is_whole_amount (of_int k)"
  by (simp add: is_whole_amount_def)



subsection \<open>The installment formula\<close>










subsection \<open>Prepayment impact\<close>

text \<open>
  Claim C4.  At the full payoff of the claim (outstanding \<open>1,000,000\<close>, prepayment
  \<open>1,000,000\<close>, rate \<open>8.5\<close>, \<open>240\<close> months left, installment \<open>8678\<close>) the result
  has a zero balance and saves all \<open>240\<close> months, but the interest it reports as
  saved is \<open>0\<close>, not a positive amount.
\<close>

theorem full_payoff_reports_no_interest_saved:
  "calculate_prepayment_impact 1000000 1000000 8.5 240 8678 =
     Inr \<lparr>new_balance = 0, new_tenure = 0, months_saved = 240, interest_saved = 0, new_emi = 0\<rparr>"
  by (simp add: calculate_prepayment_impact_def)

section \<open>Properties of the standard schedule\<close>














section \<open>Properties of the schedule with prepayments\<close>

text \<open>
  Claim C3.  A monthly loan of \<open>5000\<close> at \<open>24\<close> percent over \<open>2\<close> months has the
  installment \<open>2575\<close>.  Its standard schedule has two rows, total interest
  \<open>150.50\<close> and tenure \<open>2\<close>.  With one prepayment of \<open>0.10\<close> in month \<open>2\<close>
  the schedule has a third row, total interest \<open>150.51\<close> and tenure \<open>3\<close>: the
  prepayment loop runs for one period more than the standard loop.
\<close>

theorem prepayment_lengthens_schedule:
  "calculate_emi 5000 24 2 = Inr 2575
   \<and> map_sum id (\<lambda>s. (sum_total_interest s, sum_actual_tenure s))
       (get_summary_metrics (sample_schedule 5000 24 2 2575 ''MONTHLY'')
          (Some (generate_standard_schedule (sample_schedule 5000 24 2 2575 ''MONTHLY''))))
     = Inr (15050 / 100, 2)
   \<and> map_sum id (\<lambda>(df, s). (sum_total_interest s, sum_actual_tenure s))
       (apply_prepayments (sample_schedule 5000 24 2 2575 ''MONTHLY'') [(2, 1 / 10)])
     = Inr (15051 / 100, 3)"
  by code_simp

section \<open>Properties of the balance cascade\<close>

lemma length_running_balances [simp]: "length (running_balances b xs) = length xs"
  by (induction xs arbitrary: b) auto


lemma overwrite_balance_fields [simp]:
  "payment_id (overwrite_balance m p) = payment_id p"
  "payment_loan_id (overwrite_balance m p) = payment_loan_id p"
  "payment_date (overwrite_balance m p) = payment_date p"
  "principal_component (overwrite_balance m p) = principal_component p"
  by (simp_all add: overwrite_balance_def split: option.splits)

















section \<open>Updating, deleting and listing payments\<close>

text \<open>
  Claim C10.  \<open>Payment_update\<close> and \<open>Payment_delete\<close> with an id that no stored
  payment has return \<open>0\<close> and leave the database as it was: no row changes, no
  cascade runs and no export is triggered.
\<close>

theorem missing_payment_is_noop:
  assumes "pid \<notin> payment_id ` set (payments s)"
  shows "Payment_update s pid payment_data = (0, s) \<and> Payment_delete s pid = (0, s)"
proof -
  have "Payment_get_by_id s pid = None"
    using assms by (auto simp: Payment_get_by_id_def find_None_iff)
  then show ?thesis by (simp add: Payment_update_def Payment_delete_def)
qed

text \<open>
  The sample database has no payment \<open>7\<close>.
\<close>

theorem missing_payment_is_noop_witness:
  "7 \<notin> payment_id ` set (payments sample_db)
   \<and> Payment_update sample_db 7 sample_payment_data = (0, sample_db)
   \<and> Payment_delete sample_db 7 = (0, sample_db)"
proof -
  have h: "7 \<notin> payment_id ` set (payments sample_db)"
    by (simp add: sample_db_def sample_payment_def)
  show ?thesis using h missing_payment_is_noop [OF h, of sample_payment_data] by simp
qed

text \<open>
  Claim C8.  With two payments of one loan on the same day, the list with the lower
  payment id first is a possible answer of the query of \<open>Payment_get_by_loan\<close>, and
  it is not in the order payment date descending, payment id descending.
\<close>

theorem get_by_loan_same_day_order:
  "Payment_get_by_loan_returns same_day_db 1
     [sample_payment 1 ''2024-02-01'' 100 900 ''PAID'', sample_payment 2 ''2024-02-01'' 200 700 ''PAID'']
   \<and> \<not> sorted_wrt date_desc_id_desc
     [sample_payment 1 ''2024-02-01'' 100 900 ''PAID'', sample_payment 2 ''2024-02-01'' 200 700 ''PAID'']"
  by (simp add: Payment_get_by_loan_returns_def same_day_db_def sample_payment_def date_desc_id_desc_def)


section \<open>Properties of the schedule with rate changes\<close>













end
